theory Spec2Isabelle
  imports Main "HOL-Library.Word" "HOL-Library.Sublist"
begin

section \<open>The data model of gojsonflatten\<close>

text \<open>
  The library works on what \<^verbatim>\<open>encoding/json\<close> decodes into \<^verbatim>\<open>interface{}\<close>: a
  \<^verbatim>\<open>map[string]interface{}\<close>, a \<^verbatim>\<open>[]interface{}\<close>, or anything else. The type switches of
  \<^verbatim>\<open>flatten\<close> only tell these three apart and never look inside the third, so the leaves
  are a type parameter.

  A Go map is given by the list of its entries in the order in which \<^verbatim>\<open>range\<close> visits them
  in the run under consideration. Go leaves that order open, so a statement about every
  entry list is a statement about every iteration order. The map such a list denotes is
  \<^term>\<open>map_of\<close> of it.
\<close>

datatype 'a "value" =
    Mapping "(string \<times> 'a value) list"
  | Sequence "'a value list"
  | Scalar 'a

fun is_scalar :: "'a value \<Rightarrow> bool" where
  "is_scalar (Scalar x) = True"
| "is_scalar (Mapping kvs) = False"
| "is_scalar (Sequence vs) = False"

text \<open>
  The number of mapping and sequence layers on the longest path of a value: 0 for a leaf,
  1 for a mapping or sequence of leaves (or an empty one).
\<close>

fun nesting :: "'a value \<Rightarrow> nat"
  and nesting_entries :: "(string \<times> 'a value) list \<Rightarrow> nat"
  and nesting_elems :: "'a value list \<Rightarrow> nat"
where
  "nesting (Scalar x) = 0"
| "nesting (Mapping kvs) = Suc (nesting_entries kvs)"
| "nesting (Sequence vs) = Suc (nesting_elems vs)"
| "nesting_entries [] = 0"
| "nesting_entries ((k, v) # rest) = max (nesting v) (nesting_entries rest)"
| "nesting_elems [] = 0"
| "nesting_elems (v # rest) = max (nesting v) (nesting_elems rest)"

text \<open>\<^verbatim>\<open>type SeparatorStyle struct { Before, Middle, After string }\<close> and its four instances.\<close>

record SeparatorStyle =
  Before :: string
  Middle :: string
  After :: string

definition DotStyle :: SeparatorStyle where
  "DotStyle = \<lparr>Before = [], Middle = ''.'', After = []\<rparr>"

definition PathStyle :: SeparatorStyle where
  "PathStyle = \<lparr>Before = [], Middle = ''/'', After = []\<rparr>"

definition RailsStyle :: SeparatorStyle where
  "RailsStyle = \<lparr>Before = ''['', Middle = [], After = '']''\<rparr>"

definition UnderscoreStyle :: SeparatorStyle where
  "UnderscoreStyle = \<lparr>Before = [], Middle = ''_'', After = []\<rparr>"

text \<open>
  The two error values of the package, and the errors of \<^verbatim>\<open>encoding/json\<close>, which the text
  front end hands on as they are.
\<close>

datatype error = ErrNotValidInput | ErrNotValidJsonInput | JsonError string

text \<open>The output map, \<^verbatim>\<open>map[string]interface{}\<close>, written by key and never iterated.\<close>

type_synonym 'a flatmap = "string \<rightharpoonup> 'a value"

text \<open>Go's \<^verbatim>\<open>int\<close> on a 64-bit platform: \<^verbatim>\<open>depth++\<close> and \<^verbatim>\<open>depth-1\<close> wrap around.\<close>

type_synonym go_int = "64 word"

section \<open>The lexical check of the text front end\<close>

text \<open>
  \<^verbatim>\<open>isJsonMap = regexp.MustCompile(`^\s*\{`)\<close>. In Go's regular expressions \<^verbatim>\<open>\s\<close> is the
  class of tab, line feed, form feed, carriage return and space. The match is anchored at
  the start of the text, and the brace is not in the class, so matching is: skip the
  longest run of such characters, then find a brace.
\<close>

definition isSpace :: "char \<Rightarrow> bool" where
  "isSpace c = (c = CHR 0x09 \<or> c = CHR 0x0A \<or> c = CHR 0x0C \<or> c = CHR 0x0D \<or> c = CHR '' '')"

definition isJsonMap :: "string \<Rightarrow> bool" where
  "isJsonMap s = (case dropWhile isSpace s of [] \<Rightarrow> False | c # rest \<Rightarrow> c = CHR ''{'')"

section \<open>The key composer\<close>

definition enkey :: "bool \<Rightarrow> string \<Rightarrow> string \<Rightarrow> SeparatorStyle \<Rightarrow> string" where
  "enkey isTop pfx subKey style =
     (if isTop then pfx @ subKey
      else pfx @ (Before style @ Middle style @ subKey @ After style))"

text \<open>
  \<^verbatim>\<open>strconv.Itoa\<close> on the index of a \<^verbatim>\<open>range\<close> over a slice, which is never negative: the
  decimal digits, most significant first, no leading zero.
\<close>

definition digit :: "nat \<Rightarrow> char" where
  "digit d = ''0123456789'' ! d"

fun Itoa :: "nat \<Rightarrow> string" where
  "Itoa i = (if i < 10 then [digit i] else Itoa (i div 10) @ [digit (i mod 10)])"

declare Itoa.simps [simp del]

section \<open>The recursive flattener\<close>

text \<open>
  \<^verbatim>\<open>flatten\<close> writes into the map it is given and returns an error; the model returns the
  error (\<^term>\<open>None\<close> for \<^verbatim>\<open>nil\<close>) and the map after the call. \<^verbatim>\<open>assign\<close> is the closure
  of \<^verbatim>\<open>flatten\<close>; it reads \<^verbatim>\<open>flatMap\<close>, \<^verbatim>\<open>style\<close>, \<^verbatim>\<open>depth\<close> and \<^verbatim>\<open>keepArrays\<close> from the
  enclosing call, which are its first four arguments here. \<open>range_map\<close> and
  \<open>range_slice\<close> are the two \<^verbatim>\<open>for ... range\<close> loops; both drop what \<^verbatim>\<open>assign\<close> returns
  and go on with the next entry. The parameters \<^verbatim>\<open>top\<close> and \<^verbatim>\<open>prefix\<close> are written
  \<open>isTop\<close> and \<open>pfx\<close>, the source's names being constants of the library.
\<close>

function (sequential)
      flatten :: "bool \<Rightarrow> 'a flatmap \<Rightarrow> 'a value \<Rightarrow> string \<Rightarrow> SeparatorStyle \<Rightarrow> go_int \<Rightarrow> bool
                  \<Rightarrow> error option \<times> 'a flatmap"
  and assign :: "'a flatmap \<Rightarrow> SeparatorStyle \<Rightarrow> go_int \<Rightarrow> bool \<Rightarrow> string \<Rightarrow> 'a value
                  \<Rightarrow> error option \<times> 'a flatmap"
  and range_map :: "bool \<Rightarrow> 'a flatmap \<Rightarrow> (string \<times> 'a value) list \<Rightarrow> string \<Rightarrow> SeparatorStyle
                  \<Rightarrow> go_int \<Rightarrow> bool \<Rightarrow> 'a flatmap"
  and range_slice :: "bool \<Rightarrow> 'a flatmap \<Rightarrow> nat \<Rightarrow> 'a value list \<Rightarrow> string \<Rightarrow> SeparatorStyle
                  \<Rightarrow> go_int \<Rightarrow> bool \<Rightarrow> 'a flatmap"
where
  "flatten isTop flatMap (Mapping kvs) pfx style depth keepArrays =
     (if depth = 0 then (None, flatMap(pfx \<mapsto> Mapping kvs))
      else (None, range_map isTop flatMap kvs pfx style depth keepArrays))"
| "flatten isTop flatMap (Sequence vs) pfx style depth keepArrays =
     (if depth = 0 then (None, flatMap(pfx \<mapsto> Sequence vs))
      else if \<not> keepArrays
        then (None, range_slice isTop flatMap 0 vs pfx style depth keepArrays)
        else (None, flatMap(pfx \<mapsto> Sequence vs)))"
| "flatten isTop flatMap (Scalar x) pfx style depth keepArrays =
     (if depth = 0 then (None, flatMap(pfx \<mapsto> Scalar x))
      else (Some ErrNotValidInput, flatMap))"
| "assign flatMap style depth keepArrays newKey (Mapping kvs) =
     (case flatten False flatMap (Mapping kvs) newKey style (depth - 1) keepArrays of
        (Some err, flatMap') \<Rightarrow> (Some err, flatMap')
      | (None, flatMap') \<Rightarrow> (None, flatMap'))"
| "assign flatMap style depth keepArrays newKey (Sequence vs) =
     (case flatten False flatMap (Sequence vs) newKey style (depth - 1) keepArrays of
        (Some err, flatMap') \<Rightarrow> (Some err, flatMap')
      | (None, flatMap') \<Rightarrow> (None, flatMap'))"
| "assign flatMap style depth keepArrays newKey (Scalar x) =
     (None, flatMap(newKey \<mapsto> Scalar x))"
| "range_map isTop flatMap [] pfx style depth keepArrays = flatMap"
| "range_map isTop flatMap ((k, v) # rest) pfx style depth keepArrays =
     (let newKey = enkey isTop pfx k style;
          (_, flatMap') = assign flatMap style depth keepArrays newKey v
      in range_map isTop flatMap' rest pfx style depth keepArrays)"
| "range_slice isTop flatMap i [] pfx style depth keepArrays = flatMap"
| "range_slice isTop flatMap i (v # rest) pfx style depth keepArrays =
     (let newKey = enkey isTop pfx (Itoa i) style;
          (_, flatMap') = assign flatMap style depth keepArrays newKey v
      in range_slice isTop flatMap' (Suc i) rest pfx style depth keepArrays)"
  by pat_completeness auto

termination
  by (relation "measure (\<lambda>x. case x of
          Inl (Inl (t, fm, v, r)) \<Rightarrow> 2 * size v
        | Inl (Inr (fm, s, d, ka, nk, v)) \<Rightarrow> 2 * size v + 1
        | Inr (Inl (t, fm, kvs, r)) \<Rightarrow> 2 * size_list (size_prod (\<lambda>x. 0) size) kvs
        | Inr (Inr (t, fm, i, vs, r)) \<Rightarrow> 2 * size_list size vs)")
     auto

section \<open>The entry points\<close>

text \<open>
  \<^verbatim>\<open>flattenInternal\<close> returns a map and an error, of which one is \<^verbatim>\<open>nil\<close>: \<^term>\<open>Inr\<close> of
  the map for \<^verbatim>\<open>(m, nil)\<close>, \<^term>\<open>Inl\<close> of the error for \<^verbatim>\<open>(nil, err)\<close>. At depth 0 it hands
  back its argument, the map that the entry list denotes.
\<close>

definition flattenInternal ::
  "(string \<times> 'a value) list \<Rightarrow> string \<Rightarrow> SeparatorStyle \<Rightarrow> go_int \<Rightarrow> bool \<Rightarrow> error + 'a flatmap"
where
  "flattenInternal nested pfx style depth preserveArray =
     (if depth = 0 then Inr (map_of nested)
      else
        (let depth' = (if 0 <s depth then depth + 1 else depth) in
         case flatten True Map.empty (Mapping nested) pfx style depth' preserveArray of
           (Some err, flatmap) \<Rightarrow> Inl err
         | (None, flatmap) \<Rightarrow> Inr flatmap))"

text \<open>
  \<^verbatim>\<open>flattenStringInternal\<close> returns a string and an error. \<^verbatim>\<open>json.Unmarshal\<close> into a
  \<^verbatim>\<open>map[string]interface{}\<close> and \<^verbatim>\<open>json.Marshal\<close> belong to the standard library and are
  parameters.
\<close>

definition flattenStringInternal ::
  "(string \<Rightarrow> error + (string \<times> 'a value) list) \<Rightarrow> ('a flatmap \<Rightarrow> error + string)
   \<Rightarrow> string \<Rightarrow> string \<Rightarrow> SeparatorStyle \<Rightarrow> go_int \<Rightarrow> bool \<Rightarrow> string \<times> error option"
where
  "flattenStringInternal unmarshal marshal nestedString pfx style depth preserveArray =
     (if \<not> isJsonMap nestedString then ([], Some ErrNotValidJsonInput)
      else case unmarshal nestedString of
        Inl err \<Rightarrow> ([], Some err)
      | Inr nested \<Rightarrow>
          (case flattenInternal nested pfx style depth preserveArray of
             Inl err \<Rightarrow> ([], Some err)
           | Inr flatmap \<Rightarrow>
               (case marshal flatmap of
                  Inl err \<Rightarrow> ([], Some err)
                | Inr flatBytes \<Rightarrow> (flatBytes, None))))"

definition Flatten ::
  "(string \<times> 'a value) list \<Rightarrow> string \<Rightarrow> SeparatorStyle \<Rightarrow> go_int \<Rightarrow> error + 'a flatmap"
where
  "Flatten nested pfx style depth = flattenInternal nested pfx style depth False"

definition FlattenString ::
  "(string \<Rightarrow> error + (string \<times> 'a value) list) \<Rightarrow> ('a flatmap \<Rightarrow> error + string)
   \<Rightarrow> string \<Rightarrow> string \<Rightarrow> SeparatorStyle \<Rightarrow> go_int \<Rightarrow> string \<times> error option"
where
  "FlattenString unmarshal marshal nestedString pfx style depth =
     flattenStringInternal unmarshal marshal nestedString pfx style depth False"

definition FlattenNoArray ::
  "(string \<times> 'a value) list \<Rightarrow> string \<Rightarrow> SeparatorStyle \<Rightarrow> go_int \<Rightarrow> error + 'a flatmap"
where
  "FlattenNoArray nested pfx style depth = flattenInternal nested pfx style depth True"

definition FlattenStringNoArray ::
  "(string \<Rightarrow> error + (string \<times> 'a value) list) \<Rightarrow> ('a flatmap \<Rightarrow> error + string)
   \<Rightarrow> string \<Rightarrow> string \<Rightarrow> SeparatorStyle \<Rightarrow> go_int \<Rightarrow> string \<times> error option"
where
  "FlattenStringNoArray unmarshal marshal nestedString pfx style depth =
     flattenStringInternal unmarshal marshal nestedString pfx style depth True"

section \<open>Notions used in the statements\<close>

text \<open>A flat map whose every value is a leaf.\<close>

definition all_scalar :: "'a flatmap \<Rightarrow> bool" where
  "all_scalar fm = (\<forall>k v. fm k = Some v \<longrightarrow> is_scalar v)"

section \<open>Evaluation helpers\<close>

lemma Itoa_0: "Itoa 0 = ''0''"
  by (simp add: Itoa.simps digit_def)

lemma Itoa_1: "Itoa (Suc 0) = ''1''"
  by (simp add: Itoa.simps digit_def)

section \<open>Unfolding the flattener\<close>






lemma assign_no_error: "fst (assign flatMap style depth keepArrays newKey v) = None"
  by (cases v) (simp_all split: prod.splits option.splits)

lemma assign_structure:
  "assign flatMap style depth keepArrays newKey (Mapping kvs)
     = flatten False flatMap (Mapping kvs) newKey style (depth - 1) keepArrays"
  "assign flatMap style depth keepArrays newKey (Sequence vs)
     = flatten False flatMap (Sequence vs) newKey style (depth - 1) keepArrays"
  by (simp_all split: prod.splits option.splits)

text \<open>
  A positive depth plus one is not 0, also where the addition wraps around. So the error
  branch of \<^verbatim>\<open>flattenInternal\<close> is never taken, and its result is the map that the loop over
  the top-level entries leaves.
\<close>

lemma pos_succ_nonzero: "0 <s (depth :: go_int) \<Longrightarrow> depth + 1 \<noteq> 0"
proof
  assume pos: "0 <s depth" and "depth + 1 = 0"
  then have "depth = - 1" by (simp add: eq_neg_iff_add_eq_0)
  with pos show False by simp
qed

lemma flattenInternal_eq:
  "flattenInternal nested pfx style depth preserveArray =
     Inr (if depth = 0 then map_of nested
          else range_map True Map.empty nested pfx style
                 (if 0 <s depth then depth + 1 else depth) preserveArray)"
  by (simp add: flattenInternal_def Let_def pos_succ_nonzero)

section \<open>The remaining depth and the nesting of the input\<close>

lemma unat_minus_1_go_int: "unat (- 1 :: go_int) = 2 ^ 64 - 1"
  by (simp add: unsigned_minus_1_eq_mask mask_eq_exp_minus_1)

lemma unat_pred_bound: "Suc n \<le> unat (depth :: go_int) \<Longrightarrow> depth \<noteq> 0 \<and> n \<le> unat (depth - 1)"
proof -
  assume le: "Suc n \<le> unat depth"
  then have nz: "depth \<noteq> 0"
    by auto
  then have "unat (depth - 1) = unat depth - 1"
    by (rule unat_minus_one)
  with le nz show ?thesis
    by simp
qed

text \<open>
  When sequences are decomposed and the remaining depth, read as an unsigned number, is at
  least the nesting of the node, the recursion never meets depth 0 on a mapping or a
  sequence, and writes leaves only.
\<close>

lemma flatten_all_scalar:
  fixes flatMap :: "'a flatmap"
  shows "\<lbrakk>\<not> keepArrays; nesting v \<le> unat depth; all_scalar flatMap\<rbrakk>
         \<Longrightarrow> all_scalar (snd (flatten isTop flatMap v pfx style depth keepArrays))"
    and "\<lbrakk>\<not> keepArrays; nesting v \<le> unat (depth - 1); all_scalar flatMap\<rbrakk>
         \<Longrightarrow> all_scalar (snd (assign flatMap style depth keepArrays newKey v))"
    and "\<lbrakk>\<not> keepArrays; nesting_entries kvs \<le> unat (depth - 1); all_scalar flatMap\<rbrakk>
         \<Longrightarrow> all_scalar (range_map isTop flatMap kvs pfx style depth keepArrays)"
    and "\<lbrakk>\<not> keepArrays; nesting_elems vs \<le> unat (depth - 1); all_scalar flatMap\<rbrakk>
         \<Longrightarrow> all_scalar (range_slice isTop flatMap i vs pfx style depth keepArrays)"
proof (induction isTop flatMap v pfx style depth keepArrays
         and flatMap style depth keepArrays newKey v
         and isTop flatMap kvs pfx style depth keepArrays
         and isTop flatMap i vs pfx style depth keepArrays
       rule: flatten_assign_range_map_range_slice.induct)
  case (1 isTop flatMap kvs pfx style depth keepArrays)
  from "1.prems"(2) have "depth \<noteq> 0" "nesting_entries kvs \<le> unat (depth - 1)"
    using unat_pred_bound [of "nesting_entries kvs" depth] by simp_all
  with 1 show ?case by simp
next
  case (2 isTop flatMap vs pfx style depth keepArrays)
  from "2.prems"(2) have "depth \<noteq> 0" "nesting_elems vs \<le> unat (depth - 1)"
    using unat_pred_bound [of "nesting_elems vs" depth] by simp_all
  with 2 show ?case by simp
next
  case (3 isTop flatMap x pfx style depth keepArrays)
  then show ?case by (simp add: all_scalar_def)
next
  case (4 flatMap style depth keepArrays newKey kvs)
  then show ?case by (simp add: assign_structure del: flatten.simps assign.simps)
next
  case (5 flatMap style depth keepArrays newKey vs)
  then show ?case by (simp add: assign_structure del: flatten.simps assign.simps)
next
  case (6 flatMap style depth keepArrays newKey x)
  then show ?case by (simp add: all_scalar_def)
next
  case (7 isTop flatMap pfx style depth keepArrays)
  then show ?case by simp
next
  case (8 isTop flatMap k v rest pfx style depth keepArrays)
  let ?r = "assign flatMap style depth keepArrays (enkey isTop pfx k style) v"
  from "8.prems" have nv: "nesting v \<le> unat (depth - 1)"
    and nr: "nesting_entries rest \<le> unat (depth - 1)"
    by simp_all
  have "all_scalar (snd ?r)"
    using "8.IH"(1) [OF refl "8.prems"(1) nv "8.prems"(3)] .
  then have "all_scalar (range_map isTop (snd ?r) rest pfx style depth keepArrays)"
    using "8.IH"(2) [OF refl refl prod.collapse "8.prems"(1) nr] by simp
  then show ?case by (simp add: Let_def case_prod_beta)
next
  case (9 isTop flatMap i pfx style depth keepArrays)
  then show ?case by simp
next
  case (10 isTop flatMap i v rest pfx style depth keepArrays)
  let ?r = "assign flatMap style depth keepArrays (enkey isTop pfx (Itoa i) style) v"
  from "10.prems" have nv: "nesting v \<le> unat (depth - 1)"
    and nr: "nesting_elems rest \<le> unat (depth - 1)"
    by simp_all
  have "all_scalar (snd ?r)"
    using "10.IH"(1) [OF refl "10.prems"(1) nv "10.prems"(3)] .
  then have "all_scalar (range_slice isTop (snd ?r) (Suc i) rest pfx style depth keepArrays)"
    using "10.IH"(2) [OF refl refl prod.collapse "10.prems"(1) nr] by simp
  then show ?case by (simp add: Let_def case_prod_beta)
qed

section \<open>The keys that a run writes\<close>



section \<open>What the lexical check accepts\<close>

lemma isJsonMap_iff:
  "isJsonMap s \<longleftrightarrow> (\<exists>ws rest. s = ws @ CHR ''{'' # rest \<and> (\<forall>c \<in> set ws. isSpace c))"
proof
  assume m: "isJsonMap s"
  then obtain rest where d: "dropWhile isSpace s = CHR ''{'' # rest"
    by (auto simp: isJsonMap_def split: list.splits)
  have "s = takeWhile isSpace s @ dropWhile isSpace s"
    by simp
  with d have "s = takeWhile isSpace s @ CHR ''{'' # rest"
    by simp
  moreover have "\<forall>c \<in> set (takeWhile isSpace s). isSpace c"
    by (auto dest: set_takeWhileD)
  ultimately show "\<exists>ws rest. s = ws @ CHR ''{'' # rest \<and> (\<forall>c \<in> set ws. isSpace c)"
    by blast
next
  assume "\<exists>ws rest. s = ws @ CHR ''{'' # rest \<and> (\<forall>c \<in> set ws. isSpace c)"
  then obtain ws rest where s: "s = ws @ CHR ''{'' # rest" and ws: "\<forall>c \<in> set ws. isSpace c"
    by blast
  have "\<not> isSpace CHR ''{''"
    by (simp add: isSpace_def)
  with ws have "dropWhile isSpace s = CHR ''{'' # rest"
    unfolding s by simp
  then show "isJsonMap s"
    by (simp add: isJsonMap_def)
qed

section \<open>Depth 0\<close>

text \<open>
  C1, as the code has it: with depth 0 \<^verbatim>\<open>Flatten\<close> and \<^verbatim>\<open>FlattenNoArray\<close> return the input
  mapping itself, not decomposed and without the prefix; the guard of \<^verbatim>\<open>flattenInternal\<close>
  returns before \<^verbatim>\<open>flatten\<close> is called. It is the recursive \<^verbatim>\<open>flatten\<close> that, at remaining
  depth 0, stores its node as it is under the prefix.
\<close>

theorem depth_zero_returns_input:
  "Flatten nested pfx style 0 = Inr (map_of nested)
   \<and> FlattenNoArray nested pfx style 0 = Inr (map_of nested)
   \<and> flatten isTop flatMap node pfx style 0 keepArrays = (None, flatMap(pfx \<mapsto> node))"
  by (cases node) (simp_all add: Flatten_def FlattenNoArray_def flattenInternal_def)

text \<open>
  C1, as the claim states it, fails: \<^verbatim>\<open>Flatten({"a":"b"}, "", DotStyle, 0)\<close> is not the
  single entry that maps the prefix to the input. Its key \<^verbatim>\<open>a\<close> is still there.
\<close>

theorem depth_zero_not_under_prefix:
  "Flatten [(''a'', Scalar ''b'')] [] DotStyle 0
     \<noteq> Inr [[] \<mapsto> Mapping [(''a'', Scalar ''b'')]]"
proof
  assume "Flatten [(''a'', Scalar ''b'')] [] DotStyle 0
     = Inr [[] \<mapsto> Mapping [(''a'', Scalar ''b'')]]"
  then have "map_of [(''a'', Scalar ''b'')] = [[] \<mapsto> Mapping [(''a'', Scalar ''b'')]]"
    by (simp add: Flatten_def flattenInternal_def)
  then have "map_of [(''a'', Scalar ''b'')] ''a''
               = [[] \<mapsto> Mapping [(''a'', Scalar ''b'')]] ''a''"
    by (rule arg_cong)
  then show False by simp
qed

section \<open>Sequences kept or decomposed\<close>

text \<open>
  C5: on \<^verbatim>\<open>{"z": ["one","two"]}\<close> with empty prefix, Dot style and depth -1,
  \<^verbatim>\<open>FlattenNoArray\<close> returns \<^verbatim>\<open>{"z": ["one","two"]}\<close>, the array kept as the value, and
  \<^verbatim>\<open>Flatten\<close> returns \<^verbatim>\<open>{"z.0":"one","z.1":"two"}\<close>, the indices counted from 0 in decimal.
\<close>

theorem array_preservation_toggle:
  "FlattenNoArray [(''z'', Sequence [Scalar ''one'', Scalar ''two''])] [] DotStyle (- 1)
     = Inr [''z'' \<mapsto> Sequence [Scalar ''one'', Scalar ''two'']]
   \<and> Flatten [(''z'', Sequence [Scalar ''one'', Scalar ''two''])] [] DotStyle (- 1)
     = Inr [''z.0'' \<mapsto> Scalar ''one'', ''z.1'' \<mapsto> Scalar ''two'']"
  by (simp add: Flatten_def FlattenNoArray_def flattenInternal_def enkey_def DotStyle_def
        Itoa_0 Itoa_1)

section \<open>Key composition\<close>

text \<open>
  C6: \<^verbatim>\<open>enkey\<close> is a function of its four arguments alone. At the top level it returns
  the prefix followed by the sub-key; at nested levels the prefix followed by
  \<^verbatim>\<open>Before\<close>, \<^verbatim>\<open>Middle\<close>, the sub-key and \<^verbatim>\<open>After\<close>. Composing the path a, b, c from the
  empty prefix gives \<^verbatim>\<open>a.b.c\<close> in Dot style, \<^verbatim>\<open>a[b][c]\<close> in Rails style, \<^verbatim>\<open>a/b/c\<close> in
  Path style and \<^verbatim>\<open>a_b_c\<close> in Underscore style.
\<close>

theorem enkey_composes_keys:
  "enkey True existingPrefix subKey style = existingPrefix @ subKey
   \<and> enkey False existingPrefix subKey style
       = existingPrefix @ Before style @ Middle style @ subKey @ After style
   \<and> enkey False (enkey False (enkey True [] ''a'' DotStyle) ''b'' DotStyle) ''c'' DotStyle
       = ''a.b.c''
   \<and> enkey False (enkey False (enkey True [] ''a'' RailsStyle) ''b'' RailsStyle) ''c'' RailsStyle
       = ''a[b][c]''
   \<and> enkey False (enkey False (enkey True [] ''a'' PathStyle) ''b'' PathStyle) ''c'' PathStyle
       = ''a/b/c''
   \<and> enkey False (enkey False (enkey True [] ''a'' UnderscoreStyle) ''b'' UnderscoreStyle) ''c''
         UnderscoreStyle
       = ''a_b_c''"
  by (simp add: enkey_def DotStyle_def RailsStyle_def PathStyle_def UnderscoreStyle_def)

section \<open>The depth handed to the recursion\<close>

text \<open>
  C3: a positive depth N is incremented by one before the first call of \<^verbatim>\<open>flatten\<close>, for
  \<^verbatim>\<open>Flatten\<close> and for \<^verbatim>\<open>FlattenNoArray\<close>. On \<^verbatim>\<open>{"a":{"b":{"c":{"d":"e"}}}}\<close> with the empty
  prefix, depth 2 in Underscore style gives exactly \<^verbatim>\<open>{"a_b_c": {"d":"e"}}\<close> and depth 3 in
  Path style gives exactly \<^verbatim>\<open>{"a/b/c/d": "e"}\<close>.
\<close>

theorem public_depth_incremented:
  assumes "0 <s depth"
  shows "Flatten nested pfx style depth
           = Inr (snd (flatten True Map.empty (Mapping nested) pfx style (depth + 1) False))
         \<and> FlattenNoArray nested pfx style depth
           = Inr (snd (flatten True Map.empty (Mapping nested) pfx style (depth + 1) True))
         \<and> Flatten [(''a'', Mapping [(''b'', Mapping [(''c'', Mapping [(''d'', Scalar ''e'')])])])]
             [] UnderscoreStyle 2
           = Inr [''a_b_c'' \<mapsto> Mapping [(''d'', Scalar ''e'')]]
         \<and> Flatten [(''a'', Mapping [(''b'', Mapping [(''c'', Mapping [(''d'', Scalar ''e'')])])])]
             [] PathStyle 3
           = Inr [''a/b/c/d'' \<mapsto> Scalar ''e'']"
proof -
  from assms have nz: "depth \<noteq> 0" "depth + 1 \<noteq> 0"
    by (auto simp: pos_succ_nonzero)
  have a: "Flatten nested pfx style depth
           = Inr (snd (flatten True Map.empty (Mapping nested) pfx style (depth + 1) False))"
    using assms nz by (simp add: Flatten_def flattenInternal_eq)
  have b: "FlattenNoArray nested pfx style depth
           = Inr (snd (flatten True Map.empty (Mapping nested) pfx style (depth + 1) True))"
    using assms nz by (simp add: FlattenNoArray_def flattenInternal_eq)
  have c: "Flatten [(''a'', Mapping [(''b'', Mapping [(''c'', Mapping [(''d'', Scalar ''e'')])])])]
             [] UnderscoreStyle 2
           = Inr [''a_b_c'' \<mapsto> Mapping [(''d'', Scalar ''e'')]]"
    by (simp add: Flatten_def flattenInternal_def enkey_def UnderscoreStyle_def word_sless_alt)
  have d: "Flatten [(''a'', Mapping [(''b'', Mapping [(''c'', Mapping [(''d'', Scalar ''e'')])])])]
             [] PathStyle 3
           = Inr [''a/b/c/d'' \<mapsto> Scalar ''e'']"
    by (simp add: Flatten_def flattenInternal_def enkey_def PathStyle_def word_sless_alt)
  from a b c d show ?thesis by blast
qed

text \<open>C3 at depth 2, on \<^verbatim>\<open>{"a":{"b":"c"}}\<close>: the recursion starts at depth 3.\<close>

theorem public_depth_incremented_witness:
  "(0 :: go_int) <s 2
   \<and> Flatten [(''a'', Mapping [(''b'', Scalar ''c'')])] [] DotStyle 2
       = Inr (snd (flatten True Map.empty (Mapping [(''a'', Mapping [(''b'', Scalar ''c'')])]) []
                DotStyle (2 + 1) False))"
proof -
  have h: "(0 :: go_int) <s 2" by (simp add: word_sless_alt)
  from public_depth_incremented [OF h, of "[(''a'', Mapping [(''b'', Scalar ''c'')])]" "[]" DotStyle]
  show ?thesis using h by blast
qed

section \<open>Errors\<close>

text \<open>
  C7: called on a node that is neither a mapping nor a sequence, with a remaining depth
  other than 0, \<^verbatim>\<open>flatten\<close> returns \<^verbatim>\<open>ErrNotValidInput\<close> to its caller at once, and the
  output map is as it was before the call: nothing has been written to it.
\<close>

theorem scalar_node_rejected:
  "depth \<noteq> 0 \<Longrightarrow>
   flatten isTop flatMap (Scalar x) pfx style depth keepArrays = (Some ErrNotValidInput, flatMap)"
  by simp

text \<open>C7 at depth -1, on a leaf, with one entry already in the output map.\<close>

theorem scalar_node_rejected_witness:
  "(- 1 :: go_int) \<noteq> 0
   \<and> flatten True [''k'' \<mapsto> Scalar ''v''] (Scalar ''e'') ''p'' DotStyle (- 1) False
       = (Some ErrNotValidInput, [''k'' \<mapsto> Scalar ''v''])"
  using scalar_node_rejected [of "- 1" True "[''k'' \<mapsto> Scalar ''v'']" "''e''" "''p''" DotStyle False]
  by simp

text \<open>
  C9: \<^verbatim>\<open>Flatten\<close> and \<^verbatim>\<open>FlattenNoArray\<close> return a map and no error, whatever the mapping,
  prefix, style and depth. \<^verbatim>\<open>flatten\<close> on a mapping or a sequence returns no error, and
  \<^verbatim>\<open>assign\<close> never returns one: it calls \<^verbatim>\<open>flatten\<close> on mappings and sequences only. The
  two loops use the map that \<^verbatim>\<open>assign\<close> leaves and nothing else of what it returns.
\<close>

theorem map_entry_points_never_fail:
  "(\<exists>flatmap. Flatten nested pfx style depth = Inr flatmap)
   \<and> (\<exists>flatmap. FlattenNoArray nested pfx style depth = Inr flatmap)
   \<and> fst (flatten isTop flatMap (Mapping kvs) pfx style depth keepArrays) = None
   \<and> fst (flatten isTop flatMap (Sequence vs) pfx style depth keepArrays) = None
   \<and> fst (assign flatMap style depth keepArrays newKey v) = None
   \<and> range_map isTop flatMap ((k, v) # rest) pfx style depth keepArrays
       = range_map isTop (snd (assign flatMap style depth keepArrays (enkey isTop pfx k style) v))
           rest pfx style depth keepArrays
   \<and> range_slice isTop flatMap i (v # elems) pfx style depth keepArrays
       = range_slice isTop
           (snd (assign flatMap style depth keepArrays (enkey isTop pfx (Itoa i) style) v))
           (Suc i) elems pfx style depth keepArrays"
  by (simp add: Flatten_def FlattenNoArray_def flattenInternal_eq assign_no_error Let_def
        case_prod_beta)

section \<open>Empty mappings and sequences\<close>

text \<open>
  C10: \<^verbatim>\<open>flatten\<close> on an empty mapping, or on an empty sequence when sequences are not
  kept, with a remaining depth other than 0, writes nothing. So an entry with such a value
  leaves no key: for every depth but 0, \<^verbatim>\<open>Flatten\<close> of \<^verbatim>\<open>{k: {}}\<close> or \<^verbatim>\<open>{k: []}\<close> is the
  empty map, in every style and under every prefix.
\<close>

theorem empty_containers_vanish:
  fixes flatMap :: "'a flatmap"
  assumes "depth \<noteq> 0"
  shows "flatten isTop flatMap (Mapping []) pfx style depth keepArrays = (None, flatMap)
         \<and> flatten isTop flatMap (Sequence []) pfx style depth False = (None, flatMap)
         \<and> Flatten [(k, Mapping [])] pfx style depth = (Inr Map.empty :: error + 'a flatmap)
         \<and> Flatten [(k, Sequence [])] pfx style depth = (Inr Map.empty :: error + 'a flatmap)
         \<and> FlattenNoArray [(k, Mapping [])] pfx style depth
             = (Inr Map.empty :: error + 'a flatmap)"
proof (cases "0 <s depth")
  case True
  then have "depth + 1 \<noteq> 0" "depth \<noteq> 0"
    by (auto simp: pos_succ_nonzero)
  with True show ?thesis
    by (simp add: Flatten_def FlattenNoArray_def flattenInternal_eq)
next
  case False
  then have "depth \<noteq> 1"
    by (auto simp: word_sless_alt)
  with False assms show ?thesis
    by (simp add: Flatten_def FlattenNoArray_def flattenInternal_eq)
qed

text \<open>C10 on \<^verbatim>\<open>{"a": {}}\<close> at depth -1.\<close>

theorem empty_containers_vanish_witness:
  "(- 1 :: go_int) \<noteq> 0
   \<and> Flatten [(''a'', Mapping [])] [] DotStyle (- 1) = (Inr Map.empty :: error + string flatmap)"
  using empty_containers_vanish
          [where depth = "- 1" and k = "''a''" and pfx = "[]" and style = DotStyle
             and flatMap = "Map.empty :: string flatmap"]
  by simp

section \<open>Full flattening\<close>

text \<open>
  C4: with depth -1 and sequences decomposed, \<^verbatim>\<open>Flatten\<close> returns a map whose every value
  is a leaf, never a mapping and never a sequence. The depth is a 64-bit integer that
  goes down by one per layer, so the input is taken to have fewer than \<open>2 ^ 64\<close> nested
  layers, as every value that fits in an address space of \<open>2 ^ 64\<close> bytes has.
\<close>

theorem full_flatten_only_scalars:
  assumes "nesting (Mapping nested) < 2 ^ 64"
  shows "\<exists>flatmap. Flatten nested pfx style (- 1) = Inr flatmap
           \<and> (\<forall>k v. flatmap k = Some v \<longrightarrow> is_scalar v)"
proof -
  let ?out = "range_map True Map.empty nested pfx style (- 1) False"
  have eq: "Flatten nested pfx style (- 1) = Inr ?out"
    by (simp add: Flatten_def flattenInternal_eq)
  from assms have "nesting (Mapping nested) \<le> unat (- 1 :: go_int)"
    by (simp add: unat_minus_1_go_int)
  then have "nesting_entries nested \<le> unat ((- 1 :: go_int) - 1)"
    using unat_pred_bound [of "nesting_entries nested" "- 1"] by simp
  moreover have "all_scalar (Map.empty :: 'a flatmap)"
    by (simp add: all_scalar_def)
  ultimately have "all_scalar ?out"
    by (intro flatten_all_scalar(3)) simp_all
  with eq show ?thesis
    by (auto simp: all_scalar_def)
qed

text \<open>C4 on \<^verbatim>\<open>{"a": {"b": "c"}, "z": ["one"]}\<close>, of nesting 2.\<close>

theorem full_flatten_only_scalars_witness:
  "nesting (Mapping [(''a'', Mapping [(''b'', Scalar ''c'')]), (''z'', Sequence [Scalar ''one''])])
     < 2 ^ 64
   \<and> (\<exists>flatmap. Flatten [(''a'', Mapping [(''b'', Scalar ''c'')]), (''z'', Sequence [Scalar ''one''])]
                   [] DotStyle (- 1) = Inr flatmap
           \<and> (\<forall>k v. flatmap k = Some v \<longrightarrow> is_scalar v))"
proof -
  have h: "nesting (Mapping [(''a'', Mapping [(''b'', Scalar ''c'')]),
                             (''z'', Sequence [Scalar ''one''])]) < 2 ^ 64"
    by simp
  from full_flatten_only_scalars [OF h, of "[]" DotStyle] h
  show ?thesis by blast
qed

section \<open>The prefix\<close>




section \<open>The text front end\<close>

text \<open>
  C8: on a text that does not begin, after leading whitespace (the characters that \<^verbatim>\<open>\s\<close>
  matches), with an opening brace, \<^verbatim>\<open>FlattenString\<close> and \<^verbatim>\<open>FlattenStringNoArray\<close> return the
  empty string and \<^verbatim>\<open>ErrNotValidJsonInput\<close>, whatever the decoder and the encoder would do.
  The empty text, \<^verbatim>\<open>42\<close>, \<^verbatim>\<open>false\<close> and an array literal are such texts.
\<close>

theorem invalid_text_rejected:
  assumes "\<not> (\<exists>ws rest. nestedString = ws @ CHR ''{'' # rest \<and> (\<forall>c \<in> set ws. isSpace c))"
  shows "FlattenString unmarshal marshal nestedString pfx style depth
           = ([], Some ErrNotValidJsonInput)
         \<and> FlattenStringNoArray unmarshal marshal nestedString pfx style depth
           = ([], Some ErrNotValidJsonInput)
         \<and> FlattenString unmarshal marshal [] pfx style depth = ([], Some ErrNotValidJsonInput)
         \<and> FlattenString unmarshal marshal ''42'' pfx style depth = ([], Some ErrNotValidJsonInput)
         \<and> FlattenString unmarshal marshal ''false'' pfx style depth
           = ([], Some ErrNotValidJsonInput)
         \<and> FlattenString unmarshal marshal '' [1, 2]'' pfx style depth
           = ([], Some ErrNotValidJsonInput)"
proof -
  from assms have "\<not> isJsonMap nestedString"
    by (simp only: isJsonMap_iff not_False_eq_True)
  then have "FlattenString unmarshal marshal nestedString pfx style depth
               = ([], Some ErrNotValidJsonInput)"
    and "FlattenStringNoArray unmarshal marshal nestedString pfx style depth
               = ([], Some ErrNotValidJsonInput)"
    by (simp_all add: FlattenString_def FlattenStringNoArray_def flattenStringInternal_def)
  moreover have "FlattenString unmarshal marshal [] pfx style depth
                   = ([], Some ErrNotValidJsonInput)"
    and "FlattenString unmarshal marshal ''42'' pfx style depth = ([], Some ErrNotValidJsonInput)"
    and "FlattenString unmarshal marshal ''false'' pfx style depth
           = ([], Some ErrNotValidJsonInput)"
    and "FlattenString unmarshal marshal '' [1, 2]'' pfx style depth
           = ([], Some ErrNotValidJsonInput)"
    by (simp_all add: FlattenString_def flattenStringInternal_def isJsonMap_def isSpace_def)
  ultimately show ?thesis by blast
qed

text \<open>C8 on the array literal \<^verbatim>\<open>[1, 2]\<close>, with a decoder and an encoder that would succeed.\<close>

theorem invalid_text_rejected_witness:
  "\<not> (\<exists>ws rest. ''[1, 2]'' = ws @ CHR ''{'' # rest \<and> (\<forall>c \<in> set ws. isSpace c))
   \<and> FlattenString (\<lambda>s. Inr [(''k'', Scalar ''v'')]) (\<lambda>m. Inr ''{}'') ''[1, 2]'' [] PathStyle (- 1)
       = ([], Some ErrNotValidJsonInput)"
proof -
  have "\<not> isJsonMap ''[1, 2]''"
    by (simp add: isJsonMap_def isSpace_def)
  then have h: "\<not> (\<exists>ws rest. ''[1, 2]'' = ws @ CHR ''{'' # rest \<and> (\<forall>c \<in> set ws. isSpace c))"
    by (simp only: isJsonMap_iff not_False_eq_True)
  from invalid_text_rejected [OF h, of "\<lambda>s. Inr [(''k'', Scalar ''v'')]" "\<lambda>m. Inr ''{}''" "[]" PathStyle "- 1"]
  show ?thesis using h by blast
qed

end
